theory Spec2Isabelle
  imports Main "HOL-Library.AList" "HOL-Library.List_Lexorder" "HOL-Library.Char_ord"
begin

section \<open>The yang command of goyang: a shallow embedding of yang.go\<close>

text \<open>
  The program is one Go file: a registry of output formatters (\<open>formatters\<close>,
  \<open>register\<close>), the helper \<open>exitIfError\<close>, the global function variable \<open>stop\<close>, and
  \<open>main\<close>. Everything \<open>main\<close> does is an effect on the outside world (writing to a
  stream, calling the yang library, starting and stopping the execution trace, leaving
  the process), so a run is modelled as the list of effects it performs, in order,
  together with the way the process ends.
\<close>

subsection \<open>Data\<close>

text \<open>A Go \<open>error\<close> is represented by the text its \<open>Error()\<close> method returns.\<close>

type_synonym error = string

text \<open>
  \<open>type formatter struct { name string; f func(io.Writer, []*yang.Entry); help string }\<close>
  (the field \<open>help\<close> is written \<open>help'\<close>, \<open>help\<close> being a keyword here).
  The function value \<open>f\<close> is code outside of this file; it is kept as a value of an
  arbitrary type \<open>'r\<close>, and calling it is an effect of the run.
\<close>

record 'r formatter =
  name :: string
  f :: 'r
  help' :: string

text \<open>
  \<open>var formatters = map[string]*formatter{}\<close>. The keys of the map are enumerated by
  \<open>main\<close>, so the map is an association list read through \<open>map_of\<close>; the empty list is
  the empty map.
\<close>

type_synonym 'r registry = "(string \<times> 'r formatter) list"

text \<open>\<open>func register(f *formatter) { formatters[f.name] = f }\<close>, with the global map
  passed in and returned.\<close>

definition register :: "'r formatter \<Rightarrow> 'r registry \<Rightarrow> 'r registry" where
  "register fm fmts = AList.update (name fm) fm fmts"

text \<open>
  The variables that \<open>getopt.Parse()\<close> fills in, and \<open>getopt.Args()\<close>. A flag that is
  not given leaves its variable at the value \<open>main\<close> initialised it with (\<open>"tree"\<close> for
  \<open>format\<close>, the empty string for \<open>traceP\<close>, \<open>false\<close> for \<open>help\<close>); \<open>None\<close> stands for
  "flag not given". \<open>--path\<close> is appended to \<open>yang.Path\<close>, which only the library reads.
\<close>

record parsed =
  path_opt :: "string list"
  format_opt :: "string option"
  trace_opt :: "string option"
  help_opt :: bool
  Args :: "string list"

text \<open>
  \<open>yang.Module\<close> is a type of the yang library; \<open>main\<close> reads its field \<open>Name\<close> only.
  The rest of a module is a value of an arbitrary type.
\<close>

record 'b Module =
  Name :: string
  body :: 'b

text \<open>
  The state in which \<open>main\<close> starts, and the outside world of one run: the registry as
  the \<open>init\<close> functions of the package left it (\<open>main\<close> only reads it), and what each
  call that \<open>main\<close> makes into the operating system and into the yang library returns. \<open>'s\<close> is the state of a \<open>*yang.Modules\<close>
  (the methods \<open>Parse\<close>, \<open>Read\<close> and \<open>Process\<close> update it through the pointer, so they
  return the new state), \<open>'e\<close> is \<open>*yang.Entry\<close>. A \<open>*yang.Module\<close> handed to
  \<open>yang.ToEntry\<close> is an option, \<open>None\<close> being the nil pointer. \<open>ms_Modules\<close> is the
  sequence in which \<open>for _, m := range ms.Modules\<close> yields the modules of the set; no
  order is assumed.
\<close>

record ('s, 'b, 'e, 'r) world =
  formatters :: "'r registry"
  os_Create :: "string \<Rightarrow> error option"
  yang_GetModule :: "string \<Rightarrow> string list \<Rightarrow> 'e \<times> error list"
  ioutil_ReadAll :: "string \<times> error option"
  yang_NewModules :: 's
  ms_Parse :: "'s \<Rightarrow> string \<Rightarrow> string \<Rightarrow> 's \<times> error option"
  ms_Read :: "'s \<Rightarrow> string \<Rightarrow> 's \<times> error option"
  ms_Process :: "'s \<Rightarrow> 's \<times> error list"
  ms_Modules :: "'s \<Rightarrow> 'b Module list"
  yang_ToEntry :: "'b Module option \<Rightarrow> 'e"

subsection \<open>Effects and outcomes\<close>

datatype stream = Os_Stdout | Os_Stderr

text \<open>
  One constructor for each kind of call with an effect that the file makes:
  \<open>Fprint s t\<close> is \<open>fmt.Fprintln\<close> or \<open>fmt.Fprintf\<close> writing the text \<open>t\<close> to \<open>s\<close>;
  \<open>Write s e\<close> is the call \<open>Write(s, e)\<close> of the package's tree writer;
  \<open>Call_f r s es\<close> is the call \<open>r(s, es)\<close> of a formatter's function \<open>r\<close>.
\<close>

datatype ('e, 'r) event =
    Fprint stream string
  | PrintUsage stream
  | Create string
  | TraceStart
  | TraceStop
  | GetModule string "string list"
  | Write stream 'e
  | ReadAll
  | Parse string string
  | Read string
  | Process
  | Call_f 'r stream "'e list"

text \<open>
  How the process ends: \<open>Exit c\<close> is \<open>os.Exit(c)\<close>, which runs no deferred function;
  \<open>Return\<close> is \<open>main\<close> returning (exit status 0); \<open>Panic\<close> is a nil dereference (exit
  status 2). Deferred functions run on \<open>Return\<close> and on \<open>Panic\<close>.
\<close>

datatype status = Exit int | Return | Panic

fun exit_status :: "status \<Rightarrow> int" where
  "exit_status (Exit c) = c"
| "exit_status Return = 0"
| "exit_status Panic = 2"

type_synonym ('e, 'r) outcome = "('e, 'r) event list \<times> status"

definition emit :: "('e, 'r) event list \<Rightarrow> ('e, 'r) outcome \<Rightarrow> ('e, 'r) outcome" where
  "emit evs r = (evs @ fst r, snd r)"

text \<open>
  \<open>var stop = os.Exit\<close>; \<open>main\<close> may replace it by
  \<open>func(c int) { trace.Stop(); os.Exit(c) }\<close>. The two values the variable takes:
\<close>

datatype stop_fn = Os_Exit | Trace_Stop_Then_Exit

fun call_stop :: "stop_fn \<Rightarrow> int \<Rightarrow> ('e, 'r) outcome" where
  "call_stop Os_Exit c = ([], Exit c)"
| "call_stop Trace_Stop_Then_Exit c = ([TraceStop], Exit c)"

text \<open>\<open>fmt.Fprintln(os.Stderr, err)\<close>\<close>

definition Fprintln_err :: "error \<Rightarrow> ('e, 'r) event" where
  "Fprintln_err err = Fprint Os_Stderr (err @ ''\<newline>'')"

text \<open>
  \<open>exitIfError\<close>: \<open>None\<close> when it returns to its caller, \<open>Some\<close> of what happened when
  it does not. The global \<open>stop\<close> is its first argument.
\<close>

definition exitIfError :: "stop_fn \<Rightarrow> error list \<Rightarrow> ('e, 'r) outcome option" where
  "exitIfError stop errs =
     (if length errs > 0 then Some (emit (map Fprintln_err errs) (call_stop stop 1))
      else None)"

subsection \<open>Library functions used by main\<close>

text \<open>\<open>strings.HasSuffix\<close>, \<open>strings.Join\<close>, \<open>sort.Strings\<close> (bytewise lexicographic
  order, which is the order of \<open>string\<close> here).\<close>

definition HasSuffix :: "string \<Rightarrow> string \<Rightarrow> bool" where
  "HasSuffix s suffix =
     (length s \<ge> length suffix \<and> drop (length s - length suffix) s = suffix)"

fun Join :: "string list \<Rightarrow> string \<Rightarrow> string" where
  "Join [] sep = []"
| "Join [a] sep = a"
| "Join (a # b # bs) sep = a @ sep @ Join (b # bs) sep"

definition sort_Strings :: "string list \<Rightarrow> string list" where
  "sort_Strings a = sort a"

subsection \<open>main\<close>

text \<open>\<open>for k := range formatters { formats = append(formats, k) }\<close>: every key once.\<close>

definition range_keys :: "'r registry \<Rightarrow> string list" where
  "range_keys fmts = remdups (map fst fmts)"

text \<open>
  Lines 95-104: the trace file. Either the run ends there (\<open>Inl\<close>: \<open>os.Create\<close> failed,
  the error is printed and \<open>os.Exit(1)\<close> is called directly), or it goes on (\<open>Inr\<close>) with
  the effects so far, the value of \<open>stop\<close> and the deferred calls.
\<close>

definition trace_setup ::
  "('s, 'b, 'e, 'r) world \<Rightarrow> string \<Rightarrow>
     ('e, 'r) outcome + (('e, 'r) event list \<times> stop_fn \<times> ('e, 'r) event list)" where
  "trace_setup w traceP =
     (if traceP \<noteq> [] then
        (case os_Create w traceP of
           Some err \<Rightarrow> Inl ([Create traceP, Fprintln_err err], Exit 1)
         | None \<Rightarrow> Inr ([Create traceP, TraceStart], Trace_Stop_Then_Exit, [TraceStop]))
      else Inr ([], Os_Exit, []))"

text \<open>
  Lines 109-112: one line for each format name. \<open>formatters[fn]\<close> of a missing key is
  nil, and \<open>f.name\<close> then panics.
\<close>

fun print_formats ::
  "('s, 'b, 'e, 'r) world \<Rightarrow> string list \<Rightarrow> ('e, 'r) event list \<times> bool" where
  "print_formats w [] = ([], True)"
| "print_formats w (fn # fns) =
     (case map_of (formatters w) fn of
        None \<Rightarrow> ([], False)
      | Some fm \<Rightarrow>
          (case print_formats w fns of
             (evs, ok) \<Rightarrow>
               (Fprint Os_Stderr
                  (''    '' @ name fm @ '' - '' @ help' fm @ ''\<newline>'') # evs, ok)))"

text \<open>Lines 106-114, when \<open>help\<close> is set.\<close>

definition main_help ::
  "('s, 'b, 'e, 'r) world \<Rightarrow> string list \<Rightarrow> stop_fn \<Rightarrow> ('e, 'r) event list \<Rightarrow>
     ('e, 'r) outcome" where
  "main_help w formats stop deferred =
     emit [PrintUsage Os_Stderr, Fprint Os_Stderr ''\<newline>Formats:\<newline>'']
       (case print_formats w formats of
          (evs, ok) \<Rightarrow>
            emit evs (if ok then call_stop stop 0 else (deferred, Panic)))"

text \<open>Lines 124-129, when the first argument does not end in \<open>.yang\<close>.\<close>

definition main_module ::
  "('s, 'b, 'e, 'r) world \<Rightarrow> string list \<Rightarrow> stop_fn \<Rightarrow> ('e, 'r) event list \<Rightarrow> ('e, 'r) outcome" where
  "main_module w files stop deferred =
     (case yang_GetModule w (files ! 0) (drop 1 files) of
        (e, errs) \<Rightarrow>
          emit [GetModule (files ! 0) (drop 1 files)]
            (case exitIfError stop errs of
               Some r \<Rightarrow> r
             | None \<Rightarrow> ([Write Os_Stdout e] @ deferred, Return)))"

text \<open>Lines 136-145: standard input, read when there is no argument.\<close>

definition read_stdin ::
  "('s, 'b, 'e, 'r) world \<Rightarrow> 's \<Rightarrow> ('e, 'r) event list \<times> 's \<times> error option" where
  "read_stdin w ms =
     (case ioutil_ReadAll w of
        (data, err) \<Rightarrow>
          (case err of
             None \<Rightarrow>
               (case ms_Parse w ms data ''<STDIN>'' of
                  (ms', err') \<Rightarrow> ([ReadAll, Parse data ''<STDIN>''], ms', err'))
           | Some e \<Rightarrow> ([ReadAll], ms, Some e)))"

text \<open>Lines 147-152: the loop over the file names.\<close>

fun read_files ::
  "('s, 'b, 'e, 'r) world \<Rightarrow> 's \<Rightarrow> string list \<Rightarrow> ('e, 'r) event list \<times> 's" where
  "read_files w ms [] = ([], ms)"
| "read_files w ms (nm # nms) =
     (case ms_Read w ms nm of
        (ms', err) \<Rightarrow>
          (case read_files w ms' nms of
             (evs, ms'') \<Rightarrow>
               (Read nm # (case err of None \<Rightarrow> [] | Some e \<Rightarrow> [Fprintln_err e]) @ evs,
                ms'')))"

text \<open>
  Lines 159-167: \<open>mods\<close> and \<open>names\<close>, over the modules in the order the range
  statement yields them. \<open>mods[m.Name] == nil\<close> is \<open>mods (Name m) = None\<close>.
\<close>

fun top_modules ::
  "'b Module list \<Rightarrow> (string \<Rightarrow> 'b Module option) \<times> string list \<Rightarrow>
     (string \<Rightarrow> 'b Module option) \<times> string list" where
  "top_modules [] (mods, names) = (mods, names)"
| "top_modules (m # ms) (mods, names) =
     (if mods (Name m) = None
      then top_modules ms (mods(Name m \<mapsto> m), names @ [Name m])
      else top_modules ms (mods, names))"

text \<open>Lines 157-172: the entries, one for each name, in the order of the sorted names.\<close>

definition entries_of :: "('s, 'b, 'e, 'r) world \<Rightarrow> 'b Module list \<Rightarrow> 'e list" where
  "entries_of w modules =
     (case top_modules modules (Map.empty, []) of
        (mods, names) \<Rightarrow> map (\<lambda>n. yang_ToEntry w (mods n)) (sort_Strings names))"

text \<open>
  Lines 131-174, the arguments being file names or absent. In line 174
  \<open>formatters[format]\<close> of a missing key is nil, and \<open>.f\<close> then panics.
\<close>

definition main_files ::
  "('s, 'b, 'e, 'r) world \<Rightarrow> string \<Rightarrow> string list \<Rightarrow> stop_fn \<Rightarrow>
     ('e, 'r) event list \<Rightarrow> ('e, 'r) outcome" where
  "main_files w format files stop deferred =
     (case (if length files = 0 then read_stdin w (yang_NewModules w)
            else ([], yang_NewModules w, None)) of
        (evs1, ms1, err1) \<Rightarrow>
          emit evs1
            (case err1 of
               Some e \<Rightarrow> emit [Fprintln_err e] (call_stop stop 1)
             | None \<Rightarrow>
                 (case read_files w ms1 files of
                    (evs2, ms2) \<Rightarrow>
                      emit evs2
                        (case ms_Process w ms2 of
                           (ms3, errs) \<Rightarrow>
                             emit [Process]
                               (case exitIfError stop errs of
                                  Some r \<Rightarrow> r
                                | None \<Rightarrow>
                                    (case map_of (formatters w) format of
                                       None \<Rightarrow> (deferred, Panic)
                                     | Some fm \<Rightarrow>
                                         ([Call_f (f fm) Os_Stdout
                                             (entries_of w (ms_Modules w ms3))] @ deferred,
                                          Return)))))))"

text \<open>
  The values of \<open>format\<close> and \<open>traceP\<close> after \<open>getopt.Parse()\<close>: line 79 initialises
  \<open>format\<close> to \<open>"tree"\<close>, line 86 leaves \<open>traceP\<close> empty.
\<close>

definition format_of :: "parsed \<Rightarrow> string" where
  "format_of cl = (case format_opt cl of None \<Rightarrow> ''tree'' | Some v \<Rightarrow> v)"

definition traceP_of :: "parsed \<Rightarrow> string" where
  "traceP_of cl = (case trace_opt cl of None \<Rightarrow> [] | Some v \<Rightarrow> v)"

text \<open>\<open>main\<close>, after \<open>getopt.Parse()\<close>.\<close>

definition main :: "('s, 'b, 'e, 'r) world \<Rightarrow> parsed \<Rightarrow> ('e, 'r) outcome" where
  "main w cl =
     (let format = format_of cl;
          formats = sort_Strings (range_keys (formatters w));
          traceP = traceP_of cl;
          files = Args cl
      in
      case trace_setup w traceP of
        Inl r \<Rightarrow> r
      | Inr (evs, stop, deferred) \<Rightarrow>
          emit evs
            (if help_opt cl then main_help w formats stop deferred
             else if map_of (formatters w) format = None then
               emit [Fprint Os_Stderr
                       (format @ '': invalid format.  Choices are '' @ Join formats '', ''
                          @ ''\<newline>'')]
                 (call_stop stop 1)
             else if length files > 0 \<and> \<not> HasSuffix (files ! 0) ''.yang'' then
               main_module w files stop deferred
             else main_files w format files stop deferred))"

subsection \<open>Observations on a run\<close>

text \<open>The effects that write to standard output.\<close>

fun to_stdout :: "('e, 'r) event \<Rightarrow> bool" where
  "to_stdout (Fprint s t) = (s = Os_Stdout)"
| "to_stdout (PrintUsage s) = (s = Os_Stdout)"
| "to_stdout (Write s e) = (s = Os_Stdout)"
| "to_stdout (Call_f r s es) = (s = Os_Stdout)"
| "to_stdout ev = False"

text \<open>The effects that read input: the module resolution, standard input, the files.\<close>

fun is_input :: "('e, 'r) event \<Rightarrow> bool" where
  "is_input (GetModule n a) = True"
| "is_input ReadAll = True"
| "is_input (Parse d n) = True"
| "is_input (Read n) = True"
| "is_input ev = False"

fun is_Read :: "('e, 'r) event \<Rightarrow> bool" where
  "is_Read (Read n) = True"
| "is_Read ev = False"

fun is_Call_f :: "('e, 'r) event \<Rightarrow> bool" where
  "is_Call_f (Call_f r s es) = True"
| "is_Call_f ev = False"

text \<open>
  The model set after the files of a list have been read one after the other, whether
  the reads fail or not, and the model set when loading is over (line 153): read from
  standard input when there is no argument, from the files otherwise.
\<close>

definition load_files :: "('s, 'b, 'e, 'r) world \<Rightarrow> 's \<Rightarrow> string list \<Rightarrow> 's" where
  "load_files w ms files = fold (\<lambda>nm ms'. fst (ms_Read w ms' nm)) files ms"

definition loaded :: "('s, 'b, 'e, 'r) world \<Rightarrow> string list \<Rightarrow> 's" where
  "loaded w files =
     (if length files = 0
      then fst (ms_Parse w (yang_NewModules w) (fst (ioutil_ReadAll w)) ''<STDIN>'')
      else load_files w (yang_NewModules w) files)"

text \<open>
  The effects of lines 95-104 when the run goes on after them, and the effects of the
  call \<open>trace.Stop()\<close> that ends such a run (from the deferred function when \<open>main\<close>
  returns, from \<open>stop\<close> when it exits): both are empty when no trace file was asked for.
\<close>

definition trace_pre :: "parsed \<Rightarrow> ('e, 'r) event list" where
  "trace_pre cl = (if traceP_of cl \<noteq> [] then [Create (traceP_of cl), TraceStart] else [])"

definition trace_post :: "parsed \<Rightarrow> ('e, 'r) event list" where
  "trace_post cl = (if traceP_of cl \<noteq> [] then [TraceStop] else [])"

subsection \<open>A world to run main in\<close>

text \<open>
  A small concrete world: three registered formats; a model set is the list of the
  modules read so far; the files \<open>a.yang\<close>, \<open>b.yang\<close>, \<open>a2.yang\<close> (a second definition
  of module \<open>a\<close>) and \<open>bad.yang\<close> (a module that does not pass processing) exist, no
  other file does; an entry is the module it was made from.
\<close>

definition ex_formatters :: "nat registry" where
  "ex_formatters =
     register \<lparr>name = ''tree'', f = 1, help' = ''Display in a tree format''\<rparr>
       (register \<lparr>name = ''proto'', f = 2, help' = ''Display in proto format''\<rparr>
          (register \<lparr>name = ''types'', f = 3, help' = ''Display found types''\<rparr> []))"

definition ex_Read :: "nat Module list \<Rightarrow> string \<Rightarrow> nat Module list \<times> error option" where
  "ex_Read ms nm =
     (if nm = ''a.yang'' then (ms @ [\<lparr>Name = ''a'', body = 1\<rparr>], None)
      else if nm = ''b.yang'' then (ms @ [\<lparr>Name = ''b'', body = 2\<rparr>], None)
      else if nm = ''a2.yang'' then (ms @ [\<lparr>Name = ''a'', body = 3\<rparr>], None)
      else if nm = ''bad.yang'' then (ms @ [\<lparr>Name = ''bad'', body = 4\<rparr>], None)
      else (ms, Some (''open '' @ nm @ '': no such file or directory'')))"

definition ex_world :: "(nat Module list, nat, nat Module option, nat) world" where
  "ex_world =
     \<lparr>formatters = ex_formatters,
      os_Create = (\<lambda>p. if p = ''/nodir/t'' then Some ''open /nodir/t: no such file or directory''
                       else None),
      yang_GetModule = (\<lambda>nm aux. if nm = ''a'' then (Some \<lparr>Name = ''a'', body = 1\<rparr>, [])
                                  else (None, [''module not found: '' @ nm])),
      ioutil_ReadAll = (''module c {}'', None),
      yang_NewModules = [],
      ms_Parse = (\<lambda>ms data nm. if data = ''module c {}''
                                 then (ms @ [\<lparr>Name = ''c'', body = 5\<rparr>], None)
                                 else (ms, Some (nm @ '': syntax error''))),
      ms_Read = ex_Read,
      ms_Process = (\<lambda>ms. (ms, map (\<lambda>m. Name m @ '': unresolved import'')
                                 (filter (\<lambda>m. Name m = ''bad'') ms))),
      ms_Modules = (\<lambda>ms. ms),
      yang_ToEntry = (\<lambda>m. m)\<rparr>"

subsection \<open>The registry\<close>

lemma map_of_register:
  "map_of (register fm fs) = (map_of fs)(name fm \<mapsto> fm)"
  by (simp add: register_def update_conv')

text \<open>
  Claim C9. For two formatters with the same name, registering the first and then the
  second leaves the registry mapping that name to the second one: the later
  registration wins. \<open>register\<close> is a total function (it has no failing outcome), the
  lookup of the name after the two registrations returns exactly the second formatter,
  and every other name is mapped as before.
\<close>

theorem register_last_wins:
  assumes "name f1 = name f2"
  shows "map_of (register f2 (register f1 fs)) (name f1) = Some f2
    \<and> (\<forall>k. k \<noteq> name f1 \<longrightarrow> map_of (register f2 (register f1 fs)) k = map_of fs k)"
  using assms by (simp add: map_of_register)

theorem register_last_wins_witness:
  "name \<lparr>name = ''tree'', f = (1::nat), help' = ''old''\<rparr>
     = name \<lparr>name = ''tree'', f = (2::nat), help' = ''new''\<rparr>
   \<and> map_of (register \<lparr>name = ''tree'', f = 2, help' = ''new''\<rparr>
        (register \<lparr>name = ''tree'', f = (1::nat), help' = ''old''\<rparr>
           [(''proto'', \<lparr>name = ''proto'', f = 0, help' = ''p''\<rparr>)])) ''tree''
     = Some \<lparr>name = ''tree'', f = 2, help' = ''new''\<rparr>
   \<and> ''proto'' \<noteq> name \<lparr>name = ''tree'', f = (1::nat), help' = ''old''\<rparr>
   \<and> map_of (register \<lparr>name = ''tree'', f = 2, help' = ''new''\<rparr>
        (register \<lparr>name = ''tree'', f = (1::nat), help' = ''old''\<rparr>
           [(''proto'', \<lparr>name = ''proto'', f = 0, help' = ''p''\<rparr>)])) ''proto''
     = Some \<lparr>name = ''proto'', f = 0, help' = ''p''\<rparr>"
  using register_last_wins
    [of "\<lparr>name = ''tree'', f = (1::nat), help' = ''old''\<rparr>"
        "\<lparr>name = ''tree'', f = (2::nat), help' = ''new''\<rparr>"
        "[(''proto'', \<lparr>name = ''proto'', f = 0, help' = ''p''\<rparr>)]"]
  by simp

subsection \<open>The paths through main\<close>

lemma read_files_unfold:
  "read_files w ms (nm # nms) =
     (Read nm # (case snd (ms_Read w ms nm) of None \<Rightarrow> [] | Some e \<Rightarrow> [Fprintln_err e])
        @ fst (read_files w (fst (ms_Read w ms nm)) nms),
      snd (read_files w (fst (ms_Read w ms nm)) nms))"
  by (simp add: case_prod_unfold)

lemma print_formats_unfold:
  "print_formats w (fn # fns) =
     (case map_of (formatters w) fn of
        None \<Rightarrow> ([], False)
      | Some fm \<Rightarrow>
          (Fprint Os_Stderr (''    '' @ name fm @ '' - '' @ help' fm @ ''\<newline>'')
             # fst (print_formats w fns),
           snd (print_formats w fns)))"
  by (simp add: case_prod_unfold split: option.splits)

lemma snd_read_files: "snd (read_files w ms files) = load_files w ms files"
  by (induction files arbitrary: ms) (simp_all add: load_files_def case_prod_unfold)

text \<open>
  Every run of \<open>main\<close> takes one of nine paths; on each the effects and the way the
  process ends are known.
\<close>

lemma main_cases [consumes 0, case_names create_failed usage invalid module_err module_ok
    stdin_read_err stdin_parse_err process_err dispatched]:
  fixes w :: "('s, 'b, 'e, 'r) world"
  obtains
    (create_failed) e where
      "traceP_of cl \<noteq> []" "os_Create w (traceP_of cl) = Some e"
      "main w cl = ([Create (traceP_of cl), Fprintln_err e], Exit 1)"
  | (usage)
      "traceP_of cl \<noteq> [] \<longrightarrow> os_Create w (traceP_of cl) = None" "help_opt cl"
      "main w cl =
         (trace_pre cl @ [PrintUsage Os_Stderr, Fprint Os_Stderr ''\<newline>Formats:\<newline>'']
            @ fst (print_formats w (sort_Strings (range_keys (formatters w)))) @ trace_post cl,
          if snd (print_formats w (sort_Strings (range_keys (formatters w))))
          then Exit 0 else Panic)"
  | (invalid)
      "traceP_of cl \<noteq> [] \<longrightarrow> os_Create w (traceP_of cl) = None" "\<not> help_opt cl"
      "map_of (formatters w) (format_of cl) = None"
      "main w cl =
         (trace_pre cl @ [Fprint Os_Stderr
             (format_of cl @ '': invalid format.  Choices are ''
                @ Join (sort_Strings (range_keys (formatters w))) '', '' @ ''\<newline>'')]
            @ trace_post cl, Exit 1)"
  | (module_err) fm e errs where
      "traceP_of cl \<noteq> [] \<longrightarrow> os_Create w (traceP_of cl) = None" "\<not> help_opt cl"
      "map_of (formatters w) (format_of cl) = Some fm"
      "length (Args cl) > 0" "\<not> HasSuffix (Args cl ! 0) ''.yang''"
      "yang_GetModule w (Args cl ! 0) (drop 1 (Args cl)) = (e, errs)" "errs \<noteq> []"
      "main w cl =
         (trace_pre cl @ [GetModule (Args cl ! 0) (drop 1 (Args cl))] @ map Fprintln_err errs
            @ trace_post cl, Exit 1)"
  | (module_ok) fm e where
      "traceP_of cl \<noteq> [] \<longrightarrow> os_Create w (traceP_of cl) = None" "\<not> help_opt cl"
      "map_of (formatters w) (format_of cl) = Some fm"
      "length (Args cl) > 0" "\<not> HasSuffix (Args cl ! 0) ''.yang''"
      "yang_GetModule w (Args cl ! 0) (drop 1 (Args cl)) = (e, [])"
      "main w cl =
         (trace_pre cl @ [GetModule (Args cl ! 0) (drop 1 (Args cl)), Write Os_Stdout e]
            @ trace_post cl, Return)"
  | (stdin_read_err) fm data e where
      "traceP_of cl \<noteq> [] \<longrightarrow> os_Create w (traceP_of cl) = None" "\<not> help_opt cl"
      "map_of (formatters w) (format_of cl) = Some fm"
      "Args cl = []" "ioutil_ReadAll w = (data, Some e)"
      "main w cl = (trace_pre cl @ [ReadAll, Fprintln_err e] @ trace_post cl, Exit 1)"
  | (stdin_parse_err) fm data ms e where
      "traceP_of cl \<noteq> [] \<longrightarrow> os_Create w (traceP_of cl) = None" "\<not> help_opt cl"
      "map_of (formatters w) (format_of cl) = Some fm"
      "Args cl = []" "ioutil_ReadAll w = (data, None)"
      "ms_Parse w (yang_NewModules w) data ''<STDIN>'' = (ms, Some e)"
      "main w cl =
         (trace_pre cl @ [ReadAll, Parse data ''<STDIN>'', Fprintln_err e] @ trace_post cl,
          Exit 1)"
  | (process_err) fm ms errs where
      "traceP_of cl \<noteq> [] \<longrightarrow> os_Create w (traceP_of cl) = None" "\<not> help_opt cl"
      "map_of (formatters w) (format_of cl) = Some fm"
      "Args cl = [] \<or> HasSuffix (Args cl ! 0) ''.yang''"
      "Args cl = [] \<longrightarrow> snd (ioutil_ReadAll w) = None
         \<and> snd (ms_Parse w (yang_NewModules w) (fst (ioutil_ReadAll w)) ''<STDIN>'') = None"
      "ms_Process w (loaded w (Args cl)) = (ms, errs)" "errs \<noteq> []"
      "main w cl =
         (trace_pre cl
            @ (if Args cl = [] then [ReadAll, Parse (fst (ioutil_ReadAll w)) ''<STDIN>'']
               else fst (read_files w (yang_NewModules w) (Args cl)))
            @ [Process] @ map Fprintln_err errs @ trace_post cl, Exit 1)"
  | (dispatched) fm ms where
      "traceP_of cl \<noteq> [] \<longrightarrow> os_Create w (traceP_of cl) = None" "\<not> help_opt cl"
      "map_of (formatters w) (format_of cl) = Some fm"
      "Args cl = [] \<or> HasSuffix (Args cl ! 0) ''.yang''"
      "Args cl = [] \<longrightarrow> snd (ioutil_ReadAll w) = None
         \<and> snd (ms_Parse w (yang_NewModules w) (fst (ioutil_ReadAll w)) ''<STDIN>'') = None"
      "ms_Process w (loaded w (Args cl)) = (ms, [])"
      "main w cl =
         (trace_pre cl
            @ (if Args cl = [] then [ReadAll, Parse (fst (ioutil_ReadAll w)) ''<STDIN>'']
               else fst (read_files w (yang_NewModules w) (Args cl)))
            @ [Process, Call_f (f fm) Os_Stdout (entries_of w (ms_Modules w ms))]
            @ trace_post cl, Return)"
proof (cases "traceP_of cl \<noteq> [] \<and> os_Create w (traceP_of cl) \<noteq> None")
  case True
  then obtain e where e: "os_Create w (traceP_of cl) = Some e" by auto
  with True have "main w cl = ([Create (traceP_of cl), Fprintln_err e], Exit 1)"
    by (simp add: main_def trace_setup_def)
  with True e show ?thesis using create_failed by blast
next
  case False
  then have ok: "traceP_of cl \<noteq> [] \<longrightarrow> os_Create w (traceP_of cl) = None" by blast
  let ?stop = "if traceP_of cl \<noteq> [] then Trace_Stop_Then_Exit else Os_Exit"
  have ts: "trace_setup w (traceP_of cl) = Inr (trace_pre cl, ?stop, trace_post cl)"
    using ok by (simp add: trace_setup_def trace_pre_def trace_post_def)
  have stop: "call_stop ?stop c = (trace_post cl, Exit c)" for c
    by (simp add: trace_post_def)
  show ?thesis
  proof (cases "help_opt cl")
    case True
    with ts have "main w cl =
         (trace_pre cl @ [PrintUsage Os_Stderr, Fprint Os_Stderr ''\<newline>Formats:\<newline>'']
            @ fst (print_formats w (sort_Strings (range_keys (formatters w)))) @ trace_post cl,
          if snd (print_formats w (sort_Strings (range_keys (formatters w))))
          then Exit 0 else Panic)"
      by (simp add: main_def main_help_def emit_def stop case_prod_unfold del: call_stop.simps)
    with ok True show ?thesis using usage by blast
  next
    case nohelp: False
    show ?thesis
    proof (cases "map_of (formatters w) (format_of cl)")
      case None
      with ts nohelp have "main w cl =
         (trace_pre cl @ [Fprint Os_Stderr
             (format_of cl @ '': invalid format.  Choices are ''
                @ Join (sort_Strings (range_keys (formatters w))) '', '' @ ''\<newline>'')]
            @ trace_post cl, Exit 1)"
        by (simp add: main_def emit_def stop del: call_stop.simps)
      with ok nohelp None show ?thesis using invalid by blast
    next
      case (Some fm)
      show ?thesis
      proof (cases "length (Args cl) > 0 \<and> \<not> HasSuffix (Args cl ! 0) ''.yang''")
        case named: True
        obtain e errs where gm: "yang_GetModule w (Args cl ! 0) (drop 1 (Args cl)) = (e, errs)"
          by (cases "yang_GetModule w (Args cl ! 0) (drop 1 (Args cl))")
        have m: "main w cl = emit (trace_pre cl) (main_module w (Args cl) ?stop (trace_post cl))"
          using ts nohelp Some named by (simp add: main_def)
        show ?thesis
        proof (cases "errs = []")
          case True
          with m gm have "main w cl =
             (trace_pre cl @ [GetModule (Args cl ! 0) (drop 1 (Args cl)), Write Os_Stdout e]
                @ trace_post cl, Return)"
            by (simp add: main_module_def emit_def exitIfError_def)
          with ok nohelp Some named gm True show ?thesis using module_ok by blast
        next
          case False
          with m gm have "main w cl =
             (trace_pre cl @ [GetModule (Args cl ! 0) (drop 1 (Args cl))] @ map Fprintln_err errs
                @ trace_post cl, Exit 1)"
            by (simp add: main_module_def emit_def exitIfError_def stop del: call_stop.simps)
          with ok nohelp Some named gm False show ?thesis using module_err by blast
        qed
      next
        case False
        then have files: "Args cl = [] \<or> HasSuffix (Args cl ! 0) ''.yang''" by auto
        have m: "main w cl =
            emit (trace_pre cl) (main_files w (format_of cl) (Args cl) ?stop (trace_post cl))"
          using ts nohelp Some False by (auto simp: main_def Let_def)
        obtain ms errs where pr: "ms_Process w (loaded w (Args cl)) = (ms, errs)"
          by (cases "ms_Process w (loaded w (Args cl))")
        show ?thesis
        proof (cases "Args cl = []")
          case noargs: True
          obtain data err where ra: "ioutil_ReadAll w = (data, err)"
            by (cases "ioutil_ReadAll w")
          show ?thesis
          proof (cases err)
            case (Some e)
            with m ra noargs have "main w cl =
                (trace_pre cl @ [ReadAll, Fprintln_err e] @ trace_post cl, Exit 1)"
              by (simp add: main_files_def read_stdin_def emit_def stop del: call_stop.simps)
            with ok nohelp \<open>map_of (formatters w) (format_of cl) = Some fm\<close> noargs ra Some
            show ?thesis using stdin_read_err by blast
          next
            case None
            obtain ms1 err1 where pa: "ms_Parse w (yang_NewModules w) data ''<STDIN>'' = (ms1, err1)"
              by (cases "ms_Parse w (yang_NewModules w) data ''<STDIN>''")
            show ?thesis
            proof (cases err1)
              case (Some e)
              with m ra noargs None pa have "main w cl =
                  (trace_pre cl @ [ReadAll, Parse data ''<STDIN>'', Fprintln_err e]
                     @ trace_post cl, Exit 1)"
                by (simp add: main_files_def read_stdin_def emit_def stop del: call_stop.simps)
              with ok nohelp \<open>map_of (formatters w) (format_of cl) = Some fm\<close> noargs ra None pa Some
              show ?thesis using stdin_parse_err by blast
            next
              case perr: None
              have ld: "loaded w (Args cl) = ms1"
                using noargs ra pa by (simp add: loaded_def)
              have sok: "Args cl = [] \<longrightarrow> snd (ioutil_ReadAll w) = None
                 \<and> snd (ms_Parse w (yang_NewModules w) (fst (ioutil_ReadAll w)) ''<STDIN>'') = None"
                using ra None pa perr by simp
              show ?thesis
              proof (cases "errs = []")
                case True
                with m ra noargs None pa perr pr ld \<open>map_of (formatters w) (format_of cl) = Some fm\<close>
                have "main w cl =
                   (trace_pre cl
                      @ (if Args cl = [] then [ReadAll, Parse (fst (ioutil_ReadAll w)) ''<STDIN>'']
                         else fst (read_files w (yang_NewModules w) (Args cl)))
                      @ [Process, Call_f (f fm) Os_Stdout (entries_of w (ms_Modules w ms))]
                      @ trace_post cl, Return)"
                  by (simp add: main_files_def read_stdin_def emit_def exitIfError_def)
                with ok nohelp \<open>map_of (formatters w) (format_of cl) = Some fm\<close> files sok pr True
                show ?thesis using dispatched by blast
              next
                case False
                with m ra noargs None pa perr pr ld \<open>map_of (formatters w) (format_of cl) = Some fm\<close>
                have "main w cl =
                   (trace_pre cl
                      @ (if Args cl = [] then [ReadAll, Parse (fst (ioutil_ReadAll w)) ''<STDIN>'']
                         else fst (read_files w (yang_NewModules w) (Args cl)))
                      @ [Process] @ map Fprintln_err errs @ trace_post cl, Exit 1)"
                  by (simp add: main_files_def read_stdin_def emit_def exitIfError_def stop
                        del: call_stop.simps)
                with ok nohelp \<open>map_of (formatters w) (format_of cl) = Some fm\<close> files sok pr False
                show ?thesis using process_err by blast
              qed
            qed
          qed
        next
          case args: False
          have ld: "snd (read_files w (yang_NewModules w) (Args cl)) = loaded w (Args cl)"
            using args by (simp add: loaded_def snd_read_files)
          have sok: "Args cl = [] \<longrightarrow> snd (ioutil_ReadAll w) = None
             \<and> snd (ms_Parse w (yang_NewModules w) (fst (ioutil_ReadAll w)) ''<STDIN>'') = None"
            using args by simp
          show ?thesis
          proof (cases "errs = []")
            case True
            with m args pr ld \<open>map_of (formatters w) (format_of cl) = Some fm\<close>
            have "main w cl =
               (trace_pre cl
                  @ (if Args cl = [] then [ReadAll, Parse (fst (ioutil_ReadAll w)) ''<STDIN>'']
                     else fst (read_files w (yang_NewModules w) (Args cl)))
                  @ [Process, Call_f (f fm) Os_Stdout (entries_of w (ms_Modules w ms))]
                  @ trace_post cl, Return)"
              by (simp add: main_files_def emit_def exitIfError_def case_prod_unfold)
            with ok nohelp \<open>map_of (formatters w) (format_of cl) = Some fm\<close> files sok pr True
            show ?thesis using dispatched by blast
          next
            case False
            with m args pr ld \<open>map_of (formatters w) (format_of cl) = Some fm\<close>
            have "main w cl =
               (trace_pre cl
                  @ (if Args cl = [] then [ReadAll, Parse (fst (ioutil_ReadAll w)) ''<STDIN>'']
                     else fst (read_files w (yang_NewModules w) (Args cl)))
                  @ [Process] @ map Fprintln_err errs @ trace_post cl, Exit 1)"
              by (simp add: main_files_def emit_def exitIfError_def stop case_prod_unfold
                    del: call_stop.simps)
            with ok nohelp \<open>map_of (formatters w) (format_of cl) = Some fm\<close> files sok pr False
            show ?thesis using process_err by blast
          qed
        qed
      qed
    qed
  qed
qed

lemma read_files_filters:
  "filter to_stdout (fst (read_files w ms files)) = []"
  "filter is_Call_f (fst (read_files w ms files)) = []"
  "filter is_Read (fst (read_files w ms files)) = map Read files"
  "filter is_input (fst (read_files w ms files)) = map Read files"
  by (induction files arbitrary: ms)
     (simp_all add: read_files_unfold Fprintln_err_def del: read_files.simps(2)
        split: option.splits)

lemma read_files_notin:
  "TraceStart \<notin> set (fst (read_files w ms files))"
  "TraceStop \<notin> set (fst (read_files w ms files))"
  "Process \<notin> set (fst (read_files w ms files))"
  "ReadAll \<notin> set (fst (read_files w ms files))"
  by (induction files arbitrary: ms)
     (simp_all add: read_files_unfold Fprintln_err_def del: read_files.simps(2)
        split: option.splits)

lemma print_formats_filters:
  "filter to_stdout (fst (print_formats w fns)) = []"
  "filter is_Call_f (fst (print_formats w fns)) = []"
  "filter is_input (fst (print_formats w fns)) = []"
  by (induction fns)
     (simp_all add: print_formats_unfold del: print_formats.simps(2) split: option.splits)

lemma print_formats_notin:
  "TraceStart \<notin> set (fst (print_formats w fns))"
  "TraceStop \<notin> set (fst (print_formats w fns))"
  "Process \<notin> set (fst (print_formats w fns))"
  by (induction fns)
     (simp_all add: print_formats_unfold del: print_formats.simps(2) split: option.splits)

lemma errs_filters:
  "filter to_stdout (map Fprintln_err errs) = []"
  "filter is_Call_f (map Fprintln_err errs) = []"
  "filter is_input (map Fprintln_err errs) = []"
  by (induction errs) (simp_all add: Fprintln_err_def)

lemma errs_notin:
  "TraceStart \<notin> set (map Fprintln_err errs)"
  "TraceStop \<notin> set (map Fprintln_err errs)"
  "Process \<notin> set (map Fprintln_err errs)"
  by (induction errs) (simp_all add: Fprintln_err_def)

lemma count_list_notin: "x \<notin> set xs \<Longrightarrow> count_list xs x = 0"
  by (simp add: count_list_0_iff)

lemmas notin = read_files_notin print_formats_notin errs_notin

lemma read_files_no_other:
  "GetModule n a \<notin> set (fst (read_files w ms files))"
  "Parse d n \<notin> set (fst (read_files w ms files))"
  by (induction files arbitrary: ms)
     (simp_all add: read_files_unfold Fprintln_err_def del: read_files.simps(2)
        split: option.splits)

lemma print_formats_no_Read: "Read nm \<notin> set (fst (print_formats w fns))"
  by (induction fns)
     (simp_all add: print_formats_unfold del: print_formats.simps(2) split: option.splits)

lemma errs_no_Read: "Read nm \<notin> set (map Fprintln_err errs)"
  by (induction errs) (simp_all add: Fprintln_err_def)

lemma print_formats_no_ReadAll: "ReadAll \<notin> set (fst (print_formats w fns))"
  by (induction fns)
     (simp_all add: print_formats_unfold del: print_formats.simps(2) split: option.splits)

lemma errs_no_ReadAll: "ReadAll \<notin> set (map Fprintln_err errs)"
  by (induction errs) (simp_all add: Fprintln_err_def)

lemma errs_no_is_Read: "filter is_Read (map Fprintln_err errs) = []"
  by (induction errs) (simp_all add: Fprintln_err_def)

lemmas no_Read = print_formats_no_Read errs_no_Read print_formats_no_ReadAll errs_no_ReadAll

lemma read_files_error_printed:
  "i < length files \<Longrightarrow>
   snd (ms_Read w (load_files w ms (take i files)) (files ! i)) = Some e \<Longrightarrow>
   Fprintln_err e \<in> set (fst (read_files w ms files))"
proof (induction files arbitrary: ms i)
  case Nil
  then show ?case by simp
next
  case (Cons nm nms)
  show ?case
  proof (cases i)
    case 0
    with Cons.prems show ?thesis
      by (simp add: read_files_unfold load_files_def del: read_files.simps(2))
  next
    case (Suc j)
    with Cons.prems have "Fprintln_err e \<in> set (fst (read_files w (fst (ms_Read w ms nm)) nms))"
      by (intro Cons.IH) (simp_all add: load_files_def)
    then show ?thesis
      by (simp add: read_files_unfold del: read_files.simps(2))
  qed
qed

lemmas ex_defs = main_def Let_def trace_setup_def main_help_def main_module_def main_files_def
  read_stdin_def exitIfError_def emit_def Fprintln_err_def format_of_def traceP_of_def
  sort_Strings_def range_keys_def register_def ex_world_def ex_formatters_def ex_Read_def
  HasSuffix_def entries_of_def trace_pre_def trace_post_def loaded_def load_files_def

subsection \<open>The execution trace\<close>

text \<open>
  Claim C8. Tracing is started exactly when a trace file was asked for and
  \<open>os.Create\<close> succeeded. Whenever it is started, \<open>trace.Stop\<close> is the last effect of
  the run, and it is executed once, on every path: when \<open>main\<close> returns (the deferred
  function) and when the run leaves through \<open>stop\<close> (help, invalid format, a failure of
  standard input, errors of the module resolution or of the processing).
\<close>

theorem trace_stopped:
  "(TraceStart \<in> set (fst (main w cl))
      \<longleftrightarrow> traceP_of cl \<noteq> [] \<and> os_Create w (traceP_of cl) = None)
   \<and> (TraceStart \<in> set (fst (main w cl))
      \<longrightarrow> last (fst (main w cl)) = TraceStop \<and> count_list (fst (main w cl)) TraceStop = 1)"
proof (cases rule: main_cases [of cl w])
  case (create_failed e)
  then show ?thesis by (simp add: Fprintln_err_def)
next
  case usage
  then show ?thesis
    by (auto simp: trace_pre_def trace_post_def notin count_list_notin simp del: set_map)
next
  case invalid
  then show ?thesis by (auto simp: trace_pre_def trace_post_def)
next
  case (module_err fm e errs)
  then show ?thesis
    by (auto simp: trace_pre_def trace_post_def notin count_list_notin simp del: set_map)
next
  case (module_ok fm e)
  then show ?thesis by (auto simp: trace_pre_def trace_post_def)
next
  case (stdin_read_err fm data e)
  then show ?thesis by (auto simp: trace_pre_def trace_post_def Fprintln_err_def)
next
  case (stdin_parse_err fm data ms e)
  then show ?thesis by (auto simp: trace_pre_def trace_post_def Fprintln_err_def)
next
  case (process_err fm ms errs)
  then show ?thesis
    by (auto simp: trace_pre_def trace_post_def notin count_list_notin simp del: set_map)
next
  case (dispatched fm ms)
  then show ?thesis
    by (auto simp: trace_pre_def trace_post_def notin count_list_notin simp del: set_map)
qed

theorem trace_stopped_witness:
  "TraceStart \<in> set (fst (main ex_world
      \<lparr>path_opt = [], format_opt = None, trace_opt = Some ''t.out'', help_opt = False,
       Args = [''bad.yang'', ''b.yang'']\<rparr>))
   \<and> fst (main ex_world
      \<lparr>path_opt = [], format_opt = None, trace_opt = Some ''t.out'', help_opt = False,
       Args = [''bad.yang'', ''b.yang'']\<rparr>)
     = [Create ''t.out'', TraceStart, Read ''bad.yang'', Read ''b.yang'', Process,
        Fprint Os_Stderr ''bad: unresolved import\<newline>'', TraceStop]
   \<and> last (fst (main ex_world
      \<lparr>path_opt = [], format_opt = None, trace_opt = Some ''t.out'', help_opt = False,
       Args = [''bad.yang'', ''b.yang'']\<rparr>)) = TraceStop
   \<and> count_list (fst (main ex_world
      \<lparr>path_opt = [], format_opt = None, trace_opt = Some ''t.out'', help_opt = False,
       Args = [''bad.yang'', ''b.yang'']\<rparr>)) TraceStop = 1"
  using trace_stopped [of ex_world
      "\<lparr>path_opt = [], format_opt = None, trace_opt = Some ''t.out'', help_opt = False,
        Args = [''bad.yang'', ''b.yang'']\<rparr>"]
  by (simp add: ex_defs)

subsection \<open>Errors of the semantic processing\<close>

text \<open>
  Claim C2. Whenever \<open>main\<close> makes its call of \<open>ms.Process()\<close> and the call returns a
  batch of errors that is not empty, the run consists of what came before the call
  (which holds no other call of \<open>Process\<close>), the call, one line on the error stream for
  each error of the batch, in order, and the stopping of the trace if there is one; the
  process exits with status 1, and nothing in the run is written to standard output.
\<close>

theorem process_errors_terminal:
  assumes "Process \<in> set (fst (main w cl))"
    and "snd (ms_Process w (loaded w (Args cl))) \<noteq> []"
  shows "(\<exists>pre. fst (main w cl)
            = pre @ [Process] @ map Fprintln_err (snd (ms_Process w (loaded w (Args cl))))
                @ trace_post cl
          \<and> Process \<notin> set pre)
     \<and> snd (main w cl) = Exit 1
     \<and> filter to_stdout (fst (main w cl)) = []"
proof (cases rule: main_cases [of cl w])
  case (process_err fm ms errs)
  let ?pre = "trace_pre cl
            @ (if Args cl = [] then [ReadAll, Parse (fst (ioutil_ReadAll w)) ''<STDIN>'']
               else fst (read_files w (yang_NewModules w) (Args cl)))"
  have "fst (main w cl) = ?pre @ [Process] @ map Fprintln_err errs @ trace_post cl"
    using process_err by simp
  moreover have "Process \<notin> set ?pre"
    by (simp add: trace_pre_def notin)
  moreover have "filter to_stdout (fst (main w cl)) = []"
    using process_err
    by (simp add: trace_pre_def trace_post_def read_files_filters errs_filters)
  ultimately show ?thesis using process_err by auto
qed (use assms in \<open>auto simp: trace_pre_def trace_post_def notin Fprintln_err_def simp del: set_map\<close>)

theorem process_errors_terminal_witness:
  "Process \<in> set (fst (main ex_world
      \<lparr>path_opt = [], format_opt = Some ''proto'', trace_opt = None, help_opt = False,
       Args = [''a.yang'', ''bad.yang'']\<rparr>))
   \<and> snd (ms_Process ex_world (loaded ex_world [''a.yang'', ''bad.yang'']))
       = [''bad: unresolved import'']
   \<and> main ex_world
      \<lparr>path_opt = [], format_opt = Some ''proto'', trace_opt = None, help_opt = False,
       Args = [''a.yang'', ''bad.yang'']\<rparr>
     = ([Read ''a.yang'', Read ''bad.yang'', Process,
         Fprint Os_Stderr ''bad: unresolved import\<newline>''], Exit 1)
   \<and> filter to_stdout (fst (main ex_world
      \<lparr>path_opt = [], format_opt = Some ''proto'', trace_opt = None, help_opt = False,
       Args = [''a.yang'', ''bad.yang'']\<rparr>)) = []"
  using process_errors_terminal [of ex_world
      "\<lparr>path_opt = [], format_opt = Some ''proto'', trace_opt = None, help_opt = False,
        Args = [''a.yang'', ''bad.yang'']\<rparr>"]
  by (simp add: ex_defs)

subsection \<open>Failures while loading\<close>

text \<open>
  Claim C5. In a run that reads files (some file is read), every file of the argument
  list is read, in the order of the list, whatever the reads return; the error of each
  read that fails is written to the error stream; and the run goes on to the semantic
  processing. In a run that reads standard input, if reading it fails, or parsing what
  was read fails, the run ends with the line of that error on the error stream (and the
  stopping of the trace if there is one), the process exits with status 1, nothing is
  written to standard output, and the processing is not called.
\<close>

theorem load_failures:
  "(Read nm \<in> set (fst (main w cl)) \<longrightarrow>
      filter is_Read (fst (main w cl)) = map Read (Args cl)
      \<and> Process \<in> set (fst (main w cl))
      \<and> (\<forall>i<length (Args cl). \<forall>e.
            snd (ms_Read w (load_files w (yang_NewModules w) (take i (Args cl))) (Args cl ! i))
              = Some e
            \<longrightarrow> Fprintln_err e \<in> set (fst (main w cl))))
   \<and> (ReadAll \<in> set (fst (main w cl))
        \<and> (snd (ioutil_ReadAll w) = Some e
            \<or> snd (ioutil_ReadAll w) = None
              \<and> snd (ms_Parse w (yang_NewModules w) (fst (ioutil_ReadAll w)) ''<STDIN>'') = Some e)
      \<longrightarrow> (\<exists>pre. fst (main w cl) = pre @ [Fprintln_err e] @ trace_post cl)
          \<and> snd (main w cl) = Exit 1
          \<and> filter to_stdout (fst (main w cl)) = []
          \<and> Process \<notin> set (fst (main w cl)))"
proof (cases rule: main_cases [of cl w])
  case (create_failed e)
  then show ?thesis by (simp add: Fprintln_err_def)
next
  case usage
  then show ?thesis by (auto simp: trace_pre_def trace_post_def no_Read)
next
  case invalid
  then show ?thesis by (auto simp: trace_pre_def trace_post_def)
next
  case (module_err fm e errs)
  then show ?thesis by (auto simp: trace_pre_def trace_post_def no_Read simp del: set_map)
next
  case (module_ok fm e)
  then show ?thesis by (auto simp: trace_pre_def trace_post_def)
next
  case (stdin_read_err fm data e')
  then show ?thesis
    by (auto simp: trace_pre_def trace_post_def Fprintln_err_def)
next
  case (stdin_parse_err fm data ms e')
  then show ?thesis
    by (auto simp: trace_pre_def trace_post_def Fprintln_err_def)
next
  case (process_err fm ms errs)
  show ?thesis
  proof (cases "Args cl = []")
    case True
    with process_err show ?thesis
      by (auto simp: trace_pre_def trace_post_def no_Read simp del: set_map)
  next
    case False
    with process_err show ?thesis
      by (auto simp: trace_pre_def trace_post_def no_Read read_files_filters notin
            errs_filters errs_no_is_Read read_files_error_printed simp del: set_map)
  qed
next
  case (dispatched fm ms)
  show ?thesis
  proof (cases "Args cl = []")
    case True
    with dispatched show ?thesis
      by (auto simp: trace_pre_def trace_post_def)
  next
    case False
    with dispatched show ?thesis
      by (auto simp: trace_pre_def trace_post_def read_files_filters notin
            read_files_error_printed)
  qed
qed

theorem load_failures_witness:
  "Read ''b.yang'' \<in> set (fst (main ex_world
      \<lparr>path_opt = [], format_opt = None, trace_opt = None, help_opt = False,
       Args = [''b.yang'', ''nofile.yang'', ''a.yang'']\<rparr>))
   \<and> (1::nat) < length [''b.yang'', ''nofile.yang'', ''a.yang'']
   \<and> snd (ms_Read ex_world
        (load_files ex_world (yang_NewModules ex_world)
           (take 1 [''b.yang'', ''nofile.yang'', ''a.yang'']))
        ([''b.yang'', ''nofile.yang'', ''a.yang''] ! 1))
       = Some ''open nofile.yang: no such file or directory''
   \<and> main ex_world
      \<lparr>path_opt = [], format_opt = None, trace_opt = None, help_opt = False,
       Args = [''b.yang'', ''nofile.yang'', ''a.yang'']\<rparr>
     = ([Read ''b.yang'', Read ''nofile.yang'',
         Fprint Os_Stderr ''open nofile.yang: no such file or directory\<newline>'',
         Read ''a.yang'', Process,
         Call_f 1 Os_Stdout [Some \<lparr>Name = ''a'', body = 1\<rparr>, Some \<lparr>Name = ''b'', body = 2\<rparr>]],
        Return)
   \<and> ReadAll \<in> set (fst (main (ex_world\<lparr>ioutil_ReadAll := (''garbage'', None)\<rparr>)
      \<lparr>path_opt = [], format_opt = None, trace_opt = None, help_opt = False, Args = []\<rparr>))
   \<and> snd (ms_Parse (ex_world\<lparr>ioutil_ReadAll := (''garbage'', None)\<rparr>)
          (yang_NewModules (ex_world\<lparr>ioutil_ReadAll := (''garbage'', None)\<rparr>))
          (fst (ioutil_ReadAll (ex_world\<lparr>ioutil_ReadAll := (''garbage'', None)\<rparr>))) ''<STDIN>'')
       = Some ''<STDIN>: syntax error''
   \<and> main (ex_world\<lparr>ioutil_ReadAll := (''garbage'', None)\<rparr>)
      \<lparr>path_opt = [], format_opt = None, trace_opt = None, help_opt = False, Args = []\<rparr>
     = ([ReadAll, Parse ''garbage'' ''<STDIN>'',
         Fprint Os_Stderr ''<STDIN>: syntax error\<newline>''], Exit 1)"
  using load_failures [of "''b.yang''" ex_world
      "\<lparr>path_opt = [], format_opt = None, trace_opt = None, help_opt = False,
        Args = [''b.yang'', ''nofile.yang'', ''a.yang'']\<rparr>"]
    load_failures [of _ "ex_world\<lparr>ioutil_ReadAll := (''garbage'', None)\<rparr>"
      "\<lparr>path_opt = [], format_opt = None, trace_opt = None, help_opt = False, Args = []\<rparr>"
      "''<STDIN>: syntax error''"]
  by (simp add: ex_defs)

subsection \<open>Files that contribute no module\<close>

text \<open>
  Claim C10. In a run that reads files, the semantic processing is called whatever the
  reads return, also when every one of them fails. When the processing then reports no
  error and the model set holds no module, the only thing written to standard output is
  the call of the function of the formatter registered under the requested format, with
  the empty sequence of entries; \<open>main\<close> returns, and the exit status is 0.
\<close>

theorem files_without_modules:
  assumes "Read nm \<in> set (fst (main w cl))"
  shows "Process \<in> set (fst (main w cl))
     \<and> (snd (ms_Process w (loaded w (Args cl))) = []
          \<and> ms_Modules w (fst (ms_Process w (loaded w (Args cl)))) = []
        \<longrightarrow> (\<exists>fm. map_of (formatters w) (format_of cl) = Some fm
               \<and> filter to_stdout (fst (main w cl)) = [Call_f (f fm) Os_Stdout []])
            \<and> snd (main w cl) = Return \<and> exit_status (snd (main w cl)) = 0)"
proof (cases rule: main_cases [of cl w])
  case (process_err fm ms errs)
  then show ?thesis by simp
next
  case (dispatched fm ms)
  then show ?thesis
    by (auto simp: trace_pre_def trace_post_def read_files_filters entries_of_def sort_Strings_def)
qed (use assms in \<open>auto simp: trace_pre_def trace_post_def no_Read Fprintln_err_def simp del: set_map\<close>)

theorem files_without_modules_witness:
  "Read ''x.yang'' \<in> set (fst (main ex_world
      \<lparr>path_opt = [], format_opt = None, trace_opt = None, help_opt = False,
       Args = [''x.yang'', ''y.yang'']\<rparr>))
   \<and> snd (ms_Process ex_world (loaded ex_world [''x.yang'', ''y.yang''])) = []
   \<and> ms_Modules ex_world (fst (ms_Process ex_world (loaded ex_world [''x.yang'', ''y.yang'']))) = []
   \<and> main ex_world
      \<lparr>path_opt = [], format_opt = None, trace_opt = None, help_opt = False,
       Args = [''x.yang'', ''y.yang'']\<rparr>
     = ([Read ''x.yang'', Fprint Os_Stderr ''open x.yang: no such file or directory\<newline>'',
         Read ''y.yang'', Fprint Os_Stderr ''open y.yang: no such file or directory\<newline>'',
         Process, Call_f 1 Os_Stdout []], Return)
   \<and> exit_status (snd (main ex_world
      \<lparr>path_opt = [], format_opt = None, trace_opt = None, help_opt = False,
       Args = [''x.yang'', ''y.yang'']\<rparr>)) = 0"
  using files_without_modules [of "''x.yang''" ex_world
      "\<lparr>path_opt = [], format_opt = None, trace_opt = None, help_opt = False,
        Args = [''x.yang'', ''y.yang'']\<rparr>"]
  by (simp add: ex_defs)

subsection \<open>The entries handed to the formatter\<close>








subsection \<open>The list of formats\<close>

text \<open>
  \<open>formats\<close> holds every key of the registry once, in ascending order, so the loop
  of lines 109-112 finds a formatter for each of them, and no path of \<open>main\<close>
  dereferences a nil formatter.
\<close>

lemma formats_sorted:
  "sorted (sort_Strings (range_keys fmts))"
  "distinct (sort_Strings (range_keys fmts))"
  "set (sort_Strings (range_keys fmts)) = fst ` set fmts"
  by (simp_all add: sort_Strings_def range_keys_def)

lemma print_formats_registered:
  "set fns \<subseteq> fst ` set (formatters w) \<Longrightarrow>
   print_formats w fns =
     (map (\<lambda>fn. Fprint Os_Stderr
              (''    '' @ name (the (map_of (formatters w) fn)) @ '' - ''
                 @ help' (the (map_of (formatters w) fn)) @ ''\<newline>'')) fns,
      True)"
proof (induction fns)
  case Nil
  then show ?case by simp
next
  case (Cons fn fns)
  then obtain fm where "map_of (formatters w) fn = Some fm"
    by (cases "map_of (formatters w) fn") (auto simp: map_of_eq_None_iff)
  with Cons show ?case by simp
qed

lemma print_formats_all:
  "print_formats w (sort_Strings (range_keys (formatters w))) =
     (map (\<lambda>fn. Fprint Os_Stderr
              (''    '' @ name (the (map_of (formatters w) fn)) @ '' - ''
                 @ help' (the (map_of (formatters w) fn)) @ ''\<newline>''))
        (sort_Strings (range_keys (formatters w))),
      True)"
  by (rule print_formats_registered) (simp add: formats_sorted)

lemma trace_filters:
  "filter to_stdout (trace_pre cl) = []" "filter to_stdout (trace_post cl) = []"
  "filter is_input (trace_pre cl) = []" "filter is_input (trace_post cl) = []"
  "filter is_Call_f (trace_pre cl) = []" "filter is_Call_f (trace_post cl) = []"
  "Process \<notin> set (trace_pre cl)" "Process \<notin> set (trace_post cl)"
  by (simp_all add: trace_pre_def trace_post_def)

lemma never_panics: "snd (main w cl) \<noteq> Panic"
  by (cases rule: main_cases [of cl w]) (simp_all add: print_formats_all)

subsection \<open>Help\<close>

text \<open>
  Claim C4, as the code has it. The trace file is dealt with before \<open>help\<close> is looked
  at. So, when \<open>--help\<close> is given: no input is read in any case; if no trace file was
  asked for, or the file could be created, the run prints the usage, the heading and
  one line (name and help text) for each registered format in ascending order of the
  names, stops the trace if there is one, and exits with status 0, whatever the format
  and the arguments are; if the trace file could not be created, the run prints that
  error and exits with status 1.
\<close>

theorem help_exits:
  assumes "help_opt cl"
  shows "filter is_input (fst (main w cl)) = [] \<and> Process \<notin> set (fst (main w cl))
    \<and> ((traceP_of cl \<noteq> [] \<longrightarrow> os_Create w (traceP_of cl) = None) \<longrightarrow>
          fst (main w cl)
            = trace_pre cl
              @ [PrintUsage Os_Stderr, Fprint Os_Stderr ''\<newline>Formats:\<newline>'']
              @ map (\<lambda>fn. Fprint Os_Stderr
                      (''    '' @ name (the (map_of (formatters w) fn)) @ '' - ''
                         @ help' (the (map_of (formatters w) fn)) @ ''\<newline>''))
                  (sort_Strings (range_keys (formatters w)))
              @ trace_post cl
          \<and> snd (main w cl) = Exit 0
          \<and> sorted (sort_Strings (range_keys (formatters w)))
          \<and> distinct (sort_Strings (range_keys (formatters w)))
          \<and> set (sort_Strings (range_keys (formatters w))) = fst ` set (formatters w))
    \<and> (\<forall>e. traceP_of cl \<noteq> [] \<and> os_Create w (traceP_of cl) = Some e \<longrightarrow>
          main w cl = ([Create (traceP_of cl), Fprintln_err e], Exit 1))"
proof (cases rule: main_cases [of cl w])
  case (create_failed e)
  then show ?thesis by (simp add: Fprintln_err_def)
next
  case usage
  have "filter is_input (fst (main w cl)) = []"
    using usage(3) by (simp add: trace_pre_def trace_post_def print_formats_filters)
  moreover have "Process \<notin> set (fst (main w cl))"
    using usage(3) by (simp add: trace_pre_def trace_post_def notin)
  moreover have "fst (main w cl)
            = trace_pre cl
              @ [PrintUsage Os_Stderr, Fprint Os_Stderr ''\<newline>Formats:\<newline>'']
              @ map (\<lambda>fn. Fprint Os_Stderr
                      (''    '' @ name (the (map_of (formatters w) fn)) @ '' - ''
                         @ help' (the (map_of (formatters w) fn)) @ ''\<newline>''))
                  (sort_Strings (range_keys (formatters w)))
              @ trace_post cl"
    using usage(3) by (simp add: print_formats_all)
  moreover have "snd (main w cl) = Exit 0"
    using usage(3) by (simp add: print_formats_all)
  ultimately show ?thesis
    using usage(1) formats_sorted [of "formatters w"] by auto
qed (use assms in simp_all)

theorem help_exits_witness:
  "help_opt \<lparr>path_opt = [], format_opt = Some ''bogus'', trace_opt = Some ''t.out'',
       help_opt = True, Args = [''a'', ''b.yang'']\<rparr>
   \<and> os_Create ex_world ''t.out'' = None
   \<and> main ex_world
      \<lparr>path_opt = [], format_opt = Some ''bogus'', trace_opt = Some ''t.out'',
       help_opt = True, Args = [''a'', ''b.yang'']\<rparr>
     = ([Create ''t.out'', TraceStart, PrintUsage Os_Stderr,
         Fprint Os_Stderr ''\<newline>Formats:\<newline>'',
         Fprint Os_Stderr ''    proto - Display in proto format\<newline>'',
         Fprint Os_Stderr ''    tree - Display in a tree format\<newline>'',
         Fprint Os_Stderr ''    types - Display found types\<newline>'', TraceStop], Exit 0)
   \<and> filter is_input (fst (main ex_world
      \<lparr>path_opt = [], format_opt = Some ''bogus'', trace_opt = Some ''t.out'',
       help_opt = True, Args = [''a'', ''b.yang'']\<rparr>)) = []"
  using help_exits [of
      "\<lparr>path_opt = [], format_opt = Some ''bogus'', trace_opt = Some ''t.out'',
        help_opt = True, Args = [''a'', ''b.yang'']\<rparr>" ex_world]
  by (simp add: ex_defs)

text \<open>
  Claim C4 as stated fails: with \<open>--help\<close> and a trace file that cannot be created,
  the process exits with status 1 and the usage is not printed.
\<close>

theorem help_after_trace_file_counterexample:
  "help_opt \<lparr>path_opt = [], format_opt = None, trace_opt = Some ''/nodir/t'',
       help_opt = True, Args = []\<rparr>
   \<and> main ex_world
      \<lparr>path_opt = [], format_opt = None, trace_opt = Some ''/nodir/t'',
       help_opt = True, Args = []\<rparr>
     = ([Create ''/nodir/t'',
         Fprint Os_Stderr ''open /nodir/t: no such file or directory\<newline>''], Exit 1)
   \<and> exit_status (snd (main ex_world
      \<lparr>path_opt = [], format_opt = None, trace_opt = Some ''/nodir/t'',
       help_opt = True, Args = []\<rparr>)) \<noteq> 0
   \<and> PrintUsage Os_Stderr \<notin> set (fst (main ex_world
      \<lparr>path_opt = [], format_opt = None, trace_opt = Some ''/nodir/t'',
       help_opt = True, Args = []\<rparr>))"
  by (simp add: ex_defs)

subsection \<open>The requested format\<close>

text \<open>
  Claim C7, as the code has it. The format is checked after the trace file and after
  \<open>help\<close>. When the requested format is not registered, no input is read in any case;
  and when \<open>--help\<close> is not given and the trace file, if one was asked for, could be
  created, the run prints the message that lists every registered name in ascending
  order and exits with status 1. When the requested format is registered, the run never
  dereferences a nil formatter; it goes on to read its input (unless \<open>--help\<close> was given
  or the trace file failed); and when the processing is reached and reports no error, the
  lookup of line 174 yields the registered formatter, whose function is called.
\<close>

theorem format_lookup:
  "(map_of (formatters w) (format_of cl) = None \<longrightarrow>
      filter is_input (fst (main w cl)) = [] \<and> Process \<notin> set (fst (main w cl))
      \<and> (\<not> help_opt cl \<and> (traceP_of cl \<noteq> [] \<longrightarrow> os_Create w (traceP_of cl) = None) \<longrightarrow>
            fst (main w cl)
              = trace_pre cl
                @ [Fprint Os_Stderr
                     (format_of cl @ '': invalid format.  Choices are ''
                        @ Join (sort_Strings (range_keys (formatters w))) '', ''
                        @ ''\<newline>'')]
                @ trace_post cl
            \<and> snd (main w cl) = Exit 1
            \<and> sorted (sort_Strings (range_keys (formatters w)))
            \<and> distinct (sort_Strings (range_keys (formatters w)))
            \<and> set (sort_Strings (range_keys (formatters w))) = fst ` set (formatters w)))
   \<and> (map_of (formatters w) (format_of cl) \<noteq> None \<longrightarrow>
        snd (main w cl) \<noteq> Panic
        \<and> (\<not> help_opt cl \<and> (traceP_of cl \<noteq> [] \<longrightarrow> os_Create w (traceP_of cl) = None) \<longrightarrow>
              filter is_input (fst (main w cl)) \<noteq> [])
        \<and> (Process \<in> set (fst (main w cl))
              \<and> snd (ms_Process w (loaded w (Args cl))) = [] \<longrightarrow>
              Call_f (f (the (map_of (formatters w) (format_of cl)))) Os_Stdout
                 (entries_of w (ms_Modules w (fst (ms_Process w (loaded w (Args cl))))))
                \<in> set (fst (main w cl))
              \<and> snd (main w cl) = Return))"
proof (cases rule: main_cases [of cl w])
  case (create_failed e)
  then show ?thesis by (simp add: Fprintln_err_def)
next
  case usage
  have "filter is_input (fst (main w cl)) = []"
    using usage(3) by (simp add: trace_filters print_formats_filters)
  moreover have "Process \<notin> set (fst (main w cl))"
    using usage(3) by (simp add: trace_filters notin)
  moreover have "snd (main w cl) \<noteq> Panic"
    by (rule never_panics)
  ultimately show ?thesis using usage(2) by simp
next
  case invalid
  then show ?thesis
    using formats_sorted [of "formatters w"] by (simp add: trace_pre_def trace_post_def)
next
  case (module_err fm e errs)
  then show ?thesis
    by (simp add: trace_pre_def trace_post_def errs_filters notin del: set_map)
next
  case (module_ok fm e)
  then show ?thesis by (simp add: trace_pre_def trace_post_def)
next
  case (stdin_read_err fm data e)
  then show ?thesis by (simp add: trace_pre_def trace_post_def Fprintln_err_def)
next
  case (stdin_parse_err fm data ms e)
  then show ?thesis by (simp add: trace_pre_def trace_post_def Fprintln_err_def)
next
  case (process_err fm ms errs)
  then show ?thesis
    by (auto simp: trace_pre_def trace_post_def errs_filters read_files_filters)
next
  case (dispatched fm ms)
  then show ?thesis
    by (auto simp: trace_pre_def trace_post_def read_files_filters)
qed

theorem format_lookup_witness:
  "map_of (formatters ex_world)
      (format_of \<lparr>path_opt = [], format_opt = Some ''bogus'', trace_opt = None,
         help_opt = False, Args = [''b.yang'']\<rparr>) = None
   \<and> \<not> help_opt \<lparr>path_opt = [], format_opt = Some ''bogus'', trace_opt = None,
         help_opt = False, Args = [''b.yang'']\<rparr>
   \<and> main ex_world
      \<lparr>path_opt = [], format_opt = Some ''bogus'', trace_opt = None, help_opt = False,
       Args = [''b.yang'']\<rparr>
     = ([Fprint Os_Stderr ''bogus: invalid format.  Choices are proto, tree, types\<newline>''],
        Exit 1)
   \<and> map_of (formatters ex_world)
      (format_of \<lparr>path_opt = [], format_opt = None, trace_opt = None,
         help_opt = False, Args = [''b.yang'']\<rparr>)
       = Some \<lparr>name = ''tree'', f = 1, help' = ''Display in a tree format''\<rparr>
   \<and> Process \<in> set (fst (main ex_world
      \<lparr>path_opt = [], format_opt = None, trace_opt = None, help_opt = False,
       Args = [''b.yang'']\<rparr>))
   \<and> snd (ms_Process ex_world (loaded ex_world [''b.yang''])) = []
   \<and> main ex_world
      \<lparr>path_opt = [], format_opt = None, trace_opt = None, help_opt = False,
       Args = [''b.yang'']\<rparr>
     = ([Read ''b.yang'', Process, Call_f 1 Os_Stdout [Some \<lparr>Name = ''b'', body = 2\<rparr>]],
        Return)"
  using format_lookup [of ex_world
      "\<lparr>path_opt = [], format_opt = Some ''bogus'', trace_opt = None, help_opt = False,
        Args = [''b.yang'']\<rparr>"]
    format_lookup [of ex_world
      "\<lparr>path_opt = [], format_opt = None, trace_opt = None, help_opt = False,
        Args = [''b.yang'']\<rparr>"]
  by (simp add: ex_defs)

text \<open>
  Claim C7 as stated fails: with \<open>--help\<close> and a format that is not registered, the
  invalid-format message is not written and the exit status is 0.
\<close>

theorem unregistered_format_with_help_counterexample:
  "map_of (formatters ex_world)
      (format_of \<lparr>path_opt = [], format_opt = Some ''bogus'', trace_opt = None,
         help_opt = True, Args = [''b.yang'']\<rparr>) = None
   \<and> main ex_world
      \<lparr>path_opt = [], format_opt = Some ''bogus'', trace_opt = None, help_opt = True,
       Args = [''b.yang'']\<rparr>
     = ([PrintUsage Os_Stderr, Fprint Os_Stderr ''\<newline>Formats:\<newline>'',
         Fprint Os_Stderr ''    proto - Display in proto format\<newline>'',
         Fprint Os_Stderr ''    tree - Display in a tree format\<newline>'',
         Fprint Os_Stderr ''    types - Display found types\<newline>''], Exit 0)
   \<and> exit_status (snd (main ex_world
      \<lparr>path_opt = [], format_opt = Some ''bogus'', trace_opt = None, help_opt = True,
       Args = [''b.yang'']\<rparr>)) \<noteq> 1"
  by (simp add: ex_defs)

subsection \<open>What produces the output\<close>

text \<open>
  Claim C3, as the code has it. In every run that writes to standard output, exactly
  one effect does. When the first argument does not end in \<open>.yang\<close> (a module is
  named), it is the call \<open>Write(os.Stdout, e)\<close> with the entry that \<open>yang.GetModule\<close>
  returned, and no formatter function is called, whatever format was requested.
  Otherwise it is the call of the function of the formatter registered under the
  requested format, with \<open>os.Stdout\<close> and the entries of lines 157-172.
\<close>

theorem output_producer:
  assumes "filter to_stdout (fst (main w cl)) \<noteq> []"
  shows "if length (Args cl) > 0 \<and> \<not> HasSuffix (Args cl ! 0) ''.yang''
     then filter to_stdout (fst (main w cl))
            = [Write Os_Stdout (fst (yang_GetModule w (Args cl ! 0) (drop 1 (Args cl))))]
          \<and> filter is_Call_f (fst (main w cl)) = []
     else \<exists>fm. map_of (formatters w) (format_of cl) = Some fm
          \<and> filter to_stdout (fst (main w cl))
              = [Call_f (f fm) Os_Stdout
                   (entries_of w (ms_Modules w (fst (ms_Process w (loaded w (Args cl))))))]"
proof (cases rule: main_cases [of cl w])
  case (module_ok fm e)
  then show ?thesis by (simp add: trace_pre_def trace_post_def)
next
  case (dispatched fm ms)
  then show ?thesis by (auto simp: trace_pre_def trace_post_def read_files_filters)
qed (use assms in \<open>auto simp: trace_filters Fprintln_err_def
       print_formats_filters errs_filters read_files_filters split: if_splits\<close>)

theorem output_producer_witness:
  "filter to_stdout (fst (main ex_world
      \<lparr>path_opt = [], format_opt = Some ''proto'', trace_opt = None, help_opt = False,
       Args = [''a.yang'']\<rparr>)) \<noteq> []
   \<and> HasSuffix ([''a.yang''] ! 0) ''.yang''
   \<and> filter to_stdout (fst (main ex_world
      \<lparr>path_opt = [], format_opt = Some ''proto'', trace_opt = None, help_opt = False,
       Args = [''a.yang'']\<rparr>))
       = [Call_f 2 Os_Stdout [Some \<lparr>Name = ''a'', body = 1\<rparr>]]
   \<and> filter to_stdout (fst (main ex_world
      \<lparr>path_opt = [], format_opt = Some ''proto'', trace_opt = None, help_opt = False,
       Args = [''a'']\<rparr>)) \<noteq> []
   \<and> length [''a''] > 0 \<and> \<not> HasSuffix ([''a''] ! 0) ''.yang''
   \<and> filter to_stdout (fst (main ex_world
      \<lparr>path_opt = [], format_opt = Some ''proto'', trace_opt = None, help_opt = False,
       Args = [''a'']\<rparr>))
       = [Write Os_Stdout (Some \<lparr>Name = ''a'', body = 1\<rparr>)]"
  using output_producer [of ex_world
      "\<lparr>path_opt = [], format_opt = Some ''proto'', trace_opt = None, help_opt = False,
        Args = [''a.yang'']\<rparr>"]
    output_producer [of ex_world
      "\<lparr>path_opt = [], format_opt = Some ''proto'', trace_opt = None, help_opt = False,
        Args = [''a'']\<rparr>"]
  by (simp add: ex_defs)

text \<open>
  Claim C3 as stated fails: with the registered format \<open>proto\<close> and a module name as
  the first argument, the run reaches its output and calls no formatter function.
\<close>

theorem module_mode_bypasses_formatter_counterexample:
  "map_of (formatters ex_world)
      (format_of \<lparr>path_opt = [], format_opt = Some ''proto'', trace_opt = None,
         help_opt = False, Args = [''a'', ''b.yang'']\<rparr>)
     = Some \<lparr>name = ''proto'', f = 2, help' = ''Display in proto format''\<rparr>
   \<and> main ex_world
      \<lparr>path_opt = [], format_opt = Some ''proto'', trace_opt = None, help_opt = False,
       Args = [''a'', ''b.yang'']\<rparr>
     = ([GetModule ''a'' [''b.yang''], Write Os_Stdout (Some \<lparr>Name = ''a'', body = 1\<rparr>)],
        Return)
   \<and> filter is_Call_f (fst (main ex_world
      \<lparr>path_opt = [], format_opt = Some ''proto'', trace_opt = None, help_opt = False,
       Args = [''a'', ''b.yang'']\<rparr>)) = []"
  by (simp add: ex_defs)

subsection \<open>The input mode\<close>



end
